theory Spec2Isabelle
  imports Complex_Main "HOL-Library.AList"
begin

section \<open>The values of the host language\<close>

text \<open>
  The module \<^verbatim>\<open>src/index.js\<close> is dynamically typed: every function takes a request
  descriptor that may be any value, tests it with truthiness checks, and fails with a
  \<^verbatim>\<open>TypeError\<close> or \<^verbatim>\<open>SyntaxError\<close> where the language does. The model therefore
  works on a datatype of values.

  \<^item> A finite number is an integer (every integer of magnitude up to \<open>2^53\<close> is a double);
    fractions and the negative zero are outside the model.
  \<^item> A string is a list of code units below 256 (the characters of Latin-1); text with
    other characters is outside the model.
  \<^item> An object is the association list of its own properties, in the order in which the
    language lists them: the array indices first, in ascending order, then the other
    names in the order of their creation. Every object is an ordinary one, whose
    prototype is \<^verbatim>\<open>Object.prototype\<close>, as the objects of a parsed request and the objects
    the module creates are; the prototype is not part of the value. A descriptor is a
    tree (JSON-compatible, as section 6 of the specification says), so the only sharing
    between objects is what the code itself creates.
  \<^item> A regular expression object is its source and its flags.
\<close>

datatype jsnum = NaN | PosInf | NegInf | Fin int

datatype jsval =
    JUndefined
  | JNull
  | JBool bool
  | JNum jsnum
  | JStr string
  | JRegExp string string
  | JArr "jsval list"
  | JObj "(string \<times> jsval) list"

text \<open>
  What a call can raise. \<open>Unmodelled\<close> is not an error of the program: it marks the
  few coercions of exotic values (an array used as a property key, a numeric string with
  a fraction) whose result the model does not compute. No theorem below draws a
  conclusion about the program from it.
\<close>

datatype error = TypeError | SyntaxError | Unmodelled

definition ebind :: "error + 'a \<Rightarrow> ('a \<Rightarrow> error + 'b) \<Rightarrow> error + 'b" where
  "ebind m f = (case m of Inl e \<Rightarrow> Inl e | Inr x \<Rightarrow> f x)"

text \<open>\<^verbatim>\<open>!v\<close> is \<open>\<not> truthy v\<close>.\<close>

fun truthy :: "jsval \<Rightarrow> bool" where
  "truthy JUndefined = False"
| "truthy JNull = False"
| "truthy (JBool b) = b"
| "truthy (JNum n) = (n \<noteq> NaN \<and> n \<noteq> Fin 0)"
| "truthy (JStr s) = (s \<noteq> [])"
| "truthy (JRegExp p f) = True"
| "truthy (JArr xs) = True"
| "truthy (JObj kvs) = True"

text \<open>
  \<^verbatim>\<open>v.k\<close> for a name \<open>k\<close> written in the source. Reading a property of
  \<^verbatim>\<open>undefined\<close> or \<^verbatim>\<open>null\<close> raises; an object yields its own property or
  \<^verbatim>\<open>undefined\<close>; an array and a string have \<^verbatim>\<open>length\<close>. Inherited properties are
  not modelled: no path of the module reads one before it has returned.
\<close>

fun get_prop :: "jsval \<Rightarrow> string \<Rightarrow> error + jsval" where
  "get_prop JUndefined k = Inl TypeError"
| "get_prop JNull k = Inl TypeError"
| "get_prop (JObj kvs) k = Inr (case map_of kvs k of Some v \<Rightarrow> v | None \<Rightarrow> JUndefined)"
| "get_prop (JArr xs) k = Inr (if k = ''length'' then JNum (Fin (int (length xs))) else JUndefined)"
| "get_prop (JStr s) k = Inr (if k = ''length'' then JNum (Fin (int (length s))) else JUndefined)"
| "get_prop (JBool b) k = Inr JUndefined"
| "get_prop (JNum n) k = Inr JUndefined"
| "get_prop (JRegExp p f) k = Inr JUndefined"

text \<open>
  A property name is an array index when it is the decimal numeral, without a leading
  zero, of a number up to \<open>2^32 - 2\<close>. A new property with such a name is listed among
  the array indices, which come first and in ascending order; a new property with another
  name is listed last.
\<close>

definition array_index :: "string \<Rightarrow> nat option" where
  "array_index k =
     (if k \<noteq> [] \<and> list_all (\<lambda>c. 48 \<le> (of_char c :: nat) \<and> (of_char c :: nat) \<le> 57) k
         \<and> (k = ''0'' \<or> hd k \<noteq> CHR ''0'')
         \<and> foldl (\<lambda>a c. a * 10 + ((of_char c :: nat) - 48)) 0 k < 4294967295
      then Some (foldl (\<lambda>a c. a * 10 + ((of_char c :: nat) - 48)) 0 k)
      else None)"

definition index_below :: "nat \<Rightarrow> string \<times> jsval \<Rightarrow> bool" where
  "index_below n kv = (case array_index (fst kv) of Some m \<Rightarrow> m < n | None \<Rightarrow> False)"

definition add_own :: "string \<Rightarrow> jsval \<Rightarrow> (string \<times> jsval) list \<Rightarrow> (string \<times> jsval) list" where
  "add_own k v kvs =
     (case array_index k of
        None \<Rightarrow> kvs @ [(k, v)]
      | Some n \<Rightarrow> takeWhile (index_below n) kvs @ (k, v) # dropWhile (index_below n) kvs)"

text \<open>
  \<^verbatim>\<open>o[k] = v\<close> in strict mode (the module starts with \<^verbatim>\<open>'use strict'\<close>). On an object,
  an own property keeps its place and takes the value, and a name the object does not
  have becomes a new own property. The exception is the name \<^verbatim>\<open>__proto__\<close>: when it is
  not an own property it is the accessor inherited from \<^verbatim>\<open>Object.prototype\<close>, and the
  assignment creates no property (it changes the prototype when the value is an object,
  and does nothing otherwise). On a primitive value the assignment raises. Named
  properties of arrays and of regular expressions are not modelled.
\<close>

fun set_prop :: "jsval \<Rightarrow> string \<Rightarrow> jsval \<Rightarrow> error + jsval" where
  "set_prop (JObj kvs) k v =
     Inr (JObj (case map_of kvs k of
                  Some old \<Rightarrow> AList.update k v kvs
                | None \<Rightarrow> if k = ''__proto__'' then kvs else add_own k v kvs))"
| "set_prop (JArr xs) k v = Inl Unmodelled"
| "set_prop (JRegExp p f) k v = Inl Unmodelled"
| "set_prop JUndefined k v = Inl TypeError"
| "set_prop JNull k v = Inl TypeError"
| "set_prop (JBool b) k v = Inl TypeError"
| "set_prop (JNum n) k v = Inl TypeError"
| "set_prop (JStr s) k v = Inl TypeError"

text \<open>\<^verbatim>\<open>delete o.k\<close>, reached in the module only on an object that has \<open>k\<close>.\<close>

fun delete_prop :: "jsval \<Rightarrow> string \<Rightarrow> jsval" where
  "delete_prop (JObj kvs) k = JObj (AList.delete k kvs)"
| "delete_prop v k = v"

text \<open>\<^verbatim>\<open>a[n]\<close> on an array \<open>a\<close> for a number \<open>n\<close>: the element, or \<^verbatim>\<open>undefined\<close>
  when \<open>n\<close> is not an index of \<open>a\<close>.\<close>

fun array_get :: "jsval list \<Rightarrow> jsnum \<Rightarrow> jsval" where
  "array_get xs (Fin i) = (if 0 \<le> i \<and> nat i < length xs then xs ! nat i else JUndefined)"
| "array_get xs n = JUndefined"

text \<open>The property key a value is coerced to (\<^verbatim>\<open>ToString\<close>), for primitive values.\<close>

fun to_string :: "jsval \<Rightarrow> error + string" where
  "to_string JUndefined = Inr ''undefined''"
| "to_string JNull = Inr ''null''"
| "to_string (JBool b) = Inr (if b then ''true'' else ''false'')"
| "to_string (JStr s) = Inr s"
| "to_string v = Inl Unmodelled"

subsection \<open>Numeric strings\<close>

definition digit_value :: "char \<Rightarrow> nat option" where
  "digit_value c =
     (let n = (of_char c :: nat) in
      if 48 \<le> n \<and> n \<le> 57 then Some (n - 48)
      else if 65 \<le> n \<and> n \<le> 70 then Some (n - 55)
      else if 97 \<le> n \<and> n \<le> 102 then Some (n - 87)
      else None)"

definition digit_in :: "nat \<Rightarrow> char \<Rightarrow> nat option" where
  "digit_in b c = (case digit_value c of Some d \<Rightarrow> if d < b then Some d else None | None \<Rightarrow> None)"

definition is_dec :: "char \<Rightarrow> bool" where
  "is_dec c = (digit_in 10 c \<noteq> None)"

definition digits_in :: "nat \<Rightarrow> string \<Rightarrow> bool" where
  "digits_in b s = (s \<noteq> [] \<and> list_all (\<lambda>c. digit_in b c \<noteq> None) s)"

definition digits_val :: "nat \<Rightarrow> string \<Rightarrow> nat" where
  "digits_val b s = foldl (\<lambda>a c. a * b + (case digit_in b c of Some d \<Rightarrow> d | None \<Rightarrow> 0)) 0 s"

text \<open>How a string reads as a numeric literal: not at all, as an integer, or as a
  literal with a fraction or an exponent part.\<close>

datatype numlit = NotNumeric | IntLit int | OtherLit

definition strip_sign :: "string \<Rightarrow> bool \<times> string" where
  "strip_sign s =
     (case s of
        [] \<Rightarrow> (False, s)
      | c # r \<Rightarrow> if c = CHR ''-'' then (True, r) else if c = CHR ''+'' then (False, r) else (False, s))"

definition exponent_ok :: "string \<Rightarrow> bool" where
  "exponent_ok s = digits_in 10 (snd (strip_sign s))"

text \<open>\<^verbatim>\<open>StrUnsignedDecimalLiteral\<close> without \<^verbatim>\<open>Infinity\<close>: digits, an optional
  fraction, an optional exponent; one of the two digit runs may be empty.\<close>

definition unsigned_decimal :: "string \<Rightarrow> numlit" where
  "unsigned_decimal s =
     (let ip = takeWhile is_dec s;
          r1 = dropWhile is_dec s;
          dot = (r1 \<noteq> [] \<and> hd r1 = CHR ''.'');
          fp = (if dot then takeWhile is_dec (tl r1) else []);
          r2 = (if dot then dropWhile is_dec (tl r1) else r1)
      in if ip = [] \<and> fp = [] then NotNumeric
         else if r2 = [] then (if dot then OtherLit else IntLit (int (digits_val 10 ip)))
         else if (hd r2 = CHR ''e'' \<or> hd r2 = CHR ''E'') \<and> exponent_ok (tl r2) then OtherLit
         else NotNumeric)"

text \<open>The unsigned forms \<^verbatim>\<open>0x\<close>, \<^verbatim>\<open>0o\<close> and \<^verbatim>\<open>0b\<close>.\<close>

definition radix_of :: "char \<Rightarrow> nat option" where
  "radix_of p =
     (if p = CHR ''x'' \<or> p = CHR ''X'' then Some 16
      else if p = CHR ''o'' \<or> p = CHR ''O'' then Some 8
      else if p = CHR ''b'' \<or> p = CHR ''B'' then Some 2
      else None)"

definition radix_literal :: "string \<Rightarrow> numlit option" where
  "radix_literal s =
     (case s of
        z # p # r \<Rightarrow>
          (if z = CHR ''0'' then
             (case radix_of p of
                Some b \<Rightarrow> Some (if digits_in b r then IntLit (int (digits_val b r)) else NotNumeric)
              | None \<Rightarrow> None)
           else None)
      | _ \<Rightarrow> None)"

text \<open>The white space and the line terminators that \<^verbatim>\<open>Number\<close> strips from a string.\<close>

definition is_space :: "char \<Rightarrow> bool" where
  "is_space c = (c \<in> set [CHR 0x09, CHR 0x0A, CHR 0x0B, CHR 0x0C, CHR 0x0D, CHR 0x20, CHR 0xA0])"

definition trim :: "(char \<Rightarrow> bool) \<Rightarrow> string \<Rightarrow> string" where
  "trim ws s = rev (dropWhile ws (rev (dropWhile ws s)))"

definition of_numlit :: "bool \<Rightarrow> numlit \<Rightarrow> error + jsnum" where
  "of_numlit neg l =
     (case l of
        NotNumeric \<Rightarrow> Inr NaN
      | IntLit n \<Rightarrow> if n \<le> 2 ^ 53 then Inr (Fin (if neg then - n else n)) else Inl Unmodelled
      | OtherLit \<Rightarrow> Inl Unmodelled)"

definition string_to_number :: "string \<Rightarrow> error + jsnum" where
  "string_to_number s =
     (let t = trim is_space s in
      if t = [] then Inr (Fin 0)
      else case radix_literal t of
             Some l \<Rightarrow> of_numlit False l
           | None \<Rightarrow>
               (let (neg, u) = strip_sign t in
                if u = ''Infinity'' then Inr (if neg then NegInf else PosInf)
                else of_numlit neg (unsigned_decimal u)))"

text \<open>\<^verbatim>\<open>Number(v)\<close>, for primitive values.\<close>

fun to_number :: "jsval \<Rightarrow> error + jsnum" where
  "to_number JUndefined = Inr NaN"
| "to_number JNull = Inr (Fin 0)"
| "to_number (JBool b) = Inr (Fin (if b then 1 else 0))"
| "to_number (JNum n) = Inr n"
| "to_number (JStr s) = string_to_number s"
| "to_number v = Inl Unmodelled"

text \<open>\<^verbatim>\<open>a >= b\<close> on numbers, \<open>b\<close> finite.\<close>

fun num_ge :: "jsnum \<Rightarrow> int \<Rightarrow> bool" where
  "num_ge NaN b = False"
| "num_ge PosInf b = True"
| "num_ge NegInf b = False"
| "num_ge (Fin a) b = (b \<le> a)"

subsection \<open>\<^verbatim>\<open>JSON.parse\<close>\<close>

definition is_json_space :: "char \<Rightarrow> bool" where
  "is_json_space c = (c \<in> set [CHR 0x09, CHR 0x0A, CHR 0x0D, CHR 0x20])"

text \<open>A JSON number: an optional minus, an integer part without a leading zero, an
  optional fraction, an optional exponent.\<close>

definition json_number :: "string \<Rightarrow> numlit" where
  "json_number s =
     (let neg = (s \<noteq> [] \<and> hd s = CHR ''-'');
          u = (if neg then tl s else s);
          ip = takeWhile is_dec u;
          r1 = dropWhile is_dec u;
          dot = (r1 \<noteq> [] \<and> hd r1 = CHR ''.'');
          fp = (if dot then takeWhile is_dec (tl r1) else []);
          r2 = (if dot then dropWhile is_dec (tl r1) else r1)
      in if ip = [] \<or> (1 < length ip \<and> hd ip = CHR ''0'') then NotNumeric
         else if dot \<and> fp = [] then NotNumeric
         else if r2 = [] then
           (if dot then OtherLit
            else IntLit (if neg then - int (digits_val 10 ip) else int (digits_val 10 ip)))
         else if (hd r2 = CHR ''e'' \<or> hd r2 = CHR ''E'') \<and> exponent_ok (tl r2) then OtherLit
         else NotNumeric)"

text \<open>The JSON texts the filter of the searchable columns can meet: the three literal
  names and the numbers. A text that starts a string, an array or an object is not
  parsed by the model.\<close>

definition json_text :: "string \<Rightarrow> error + jsval" where
  "json_text s =
     (let t = trim is_json_space s in
      if t = ''true'' then Inr (JBool True)
      else if t = ''false'' then Inr (JBool False)
      else if t = ''null'' then Inr JNull
      else if t \<noteq> [] \<and> (hd t = CHR 0x22 \<or> hd t = CHR ''['' \<or> hd t = CHR ''{'') then Inl Unmodelled
      else case json_number t of
             NotNumeric \<Rightarrow> Inl SyntaxError
           | IntLit n \<Rightarrow> if \<bar>n\<bar> \<le> 2 ^ 53 then Inr (JNum (Fin n)) else Inl Unmodelled
           | OtherLit \<Rightarrow> Inl Unmodelled)"

text \<open>\<^verbatim>\<open>JSON.parse(v)\<close>: the argument is converted to a string and parsed. A boolean,
  \<^verbatim>\<open>null\<close> and a finite number print as the JSON text of themselves;
  \<^verbatim>\<open>undefined\<close>, \<^verbatim>\<open>NaN\<close> and the infinities print as text that is not JSON.\<close>

fun JSON_parse :: "jsval \<Rightarrow> error + jsval" where
  "JSON_parse (JStr s) = json_text s"
| "JSON_parse (JBool b) = Inr (JBool b)"
| "JSON_parse JNull = Inr JNull"
| "JSON_parse JUndefined = Inl SyntaxError"
| "JSON_parse (JNum (Fin n)) = Inr (JNum (Fin n))"
| "JSON_parse (JNum n) = Inl SyntaxError"
| "JSON_parse v = Inl Unmodelled"

subsection \<open>Regular expressions\<close>

text \<open>
  The constructor \<^verbatim>\<open>RegExp\<close> parses its pattern (ECMA-262, section 22.2.1). The
  model has the syntax tree of the constructs the module's patterns are made of: a pattern
  character, an identity escape, \<^verbatim>\<open>.\<close>, \<^verbatim>\<open>^\<close>, \<^verbatim>\<open>$\<close>, the quantifiers \<^verbatim>\<open>*\<close>
  and \<^verbatim>\<open>*?\<close> on a character or on \<^verbatim>\<open>.\<close>, and the lookahead \<^verbatim>\<open>(?=...)\<close>. A greedy
  and a lazy quantifier have the same tree. What such a pattern matches is not modelled:
  the module hands the patterns it builds to the store and never runs one of them.
\<close>

text \<open>The line terminators, which \<^verbatim>\<open>.\<close> does not match (in \<^verbatim>\<open>/^"(.*)"$/\<close> on
  line 83, which the module runs itself).\<close>

definition line_terminator :: "char \<Rightarrow> bool" where
  "line_terminator c = (c = CHR 0x0A \<or> c = CHR 0x0D)"





section \<open>The module\<close>

text \<open>Running a callback over a list stops at the first element on which it raises.\<close>

fun emap :: "('a \<Rightarrow> error + 'b) \<Rightarrow> 'a list \<Rightarrow> error + 'b list" where
  "emap f [] = Inr []"
| "emap f (x # xs) = ebind (f x) (\<lambda>y. ebind (emap f xs) (\<lambda>ys. Inr (y # ys)))"

subsection \<open>\<^verbatim>\<open>getSearchableFields\<close> (lines 18 to 24)\<close>

text \<open>The callback \<^verbatim>\<open>(column) => JSON.parse(column.searchable)\<close>, and the \<^verbatim>\<open>filter\<close>
  that keeps the columns on which it returns a truthy value.\<close>

definition searchable_flag :: "jsval \<Rightarrow> error + jsval" where
  "searchable_flag column = ebind (get_prop column ''searchable'') JSON_parse"

fun filter_searchable :: "jsval list \<Rightarrow> error + jsval list" where
  "filter_searchable [] = Inr []"
| "filter_searchable (column # cs) =
     ebind (searchable_flag column) (\<lambda>v.
     ebind (filter_searchable cs) (\<lambda>kept.
     Inr (if truthy v then column # kept else kept)))"

text \<open>Only an array has the method \<^verbatim>\<open>filter\<close>: calling it on anything else raises.\<close>

definition getSearchableFields :: "jsval \<Rightarrow> error + jsval list" where
  "getSearchableFields params =
     ebind (get_prop params ''columns'') (\<lambda>columns.
     case columns of
       JArr cs \<Rightarrow> ebind (filter_searchable cs) (emap (\<lambda>column. get_prop column ''data''))
     | _ \<Rightarrow> Inl TypeError)"

subsection \<open>\<^verbatim>\<open>isNaNorUndefined\<close> (lines 31 to 33)\<close>

text \<open>\<^verbatim>\<open>args.some(arg => isNaN(arg) || (arg === undefined || arg === null))\<close>, where the
  global \<^verbatim>\<open>isNaN\<close> converts its argument to a number.\<close>

fun isNaNorUndefined :: "jsval list \<Rightarrow> error + bool" where
  "isNaNorUndefined [] = Inr False"
| "isNaNorUndefined (arg # args) =
     ebind (to_number arg) (\<lambda>n.
     if n = NaN \<or> arg = JUndefined \<or> arg = JNull then Inr True else isNaNorUndefined args)"

subsection \<open>\<^verbatim>\<open>escapeRegex\<close> (lines 4 and 40 to 42)\<close>

text \<open>The sixteen characters of \<^verbatim>\<open>_re_escape_regex\<close>, in the order of line 4.\<close>

definition re_escape_chars :: "char list" where
  "re_escape_chars =
     [CHR ''/'', CHR ''.'', CHR ''*'', CHR ''+'', CHR ''?'', CHR ''|'', CHR ''('', CHR '')'',
      CHR ''['', CHR '']'', CHR ''{'', CHR ''}'', CHR 0x5C, CHR ''$'', CHR ''^'', CHR ''-'']"

text \<open>The global replacement puts a backslash before every occurrence of one of them.\<close>

definition escape_text :: "string \<Rightarrow> string" where
  "escape_text s = concat (map (\<lambda>c. if c \<in> set re_escape_chars then [CHR 0x5C, c] else [c]) s)"

text \<open>Only a string has the method \<^verbatim>\<open>replace\<close>.\<close>

fun escapeRegex :: "jsval \<Rightarrow> error + string" where
  "escapeRegex (JStr s) = Inr (escape_text s)"
| "escapeRegex v = Inl TypeError"

subsection \<open>\<^verbatim>\<open>buildFindParameters\<close> (lines 66 to 116)\<close>

text \<open>A match of \<^verbatim>\<open>"[^"]+"\<close> at the head of a string: the matched text and what
  follows it.\<close>

definition quoted_run :: "string \<Rightarrow> (string \<times> string) option" where
  "quoted_run s =
     (case s of
        [] \<Rightarrow> None
      | c # r \<Rightarrow>
          (let body = takeWhile (\<lambda>x. x \<noteq> CHR 0x22) r;
               rest = dropWhile (\<lambda>x. x \<noteq> CHR 0x22) r
           in if c = CHR 0x22 \<and> body \<noteq> [] \<and> rest \<noteq> []
              then Some (c # body @ [CHR 0x22], tl rest) else None))"

text \<open>\<^verbatim>\<open>searchText.match(/"[^"]+"|[^ ]+/g)\<close>: the successive leftmost matches, the
  quoted alternative tried first; a space that starts no match is skipped. The empty list
  stands for \<^verbatim>\<open>null\<close>.\<close>

function match_words :: "string \<Rightarrow> string list" where
  "match_words [] = []"
| "match_words (c # r) =
     (case quoted_run (c # r) of
        Some (tok, rest) \<Rightarrow> tok # match_words rest
      | None \<Rightarrow>
          if c = CHR '' '' then match_words r
          else (c # takeWhile (\<lambda>x. x \<noteq> CHR '' '') r) # match_words (dropWhile (\<lambda>x. x \<noteq> CHR '' '') r))"
  by pat_completeness auto
termination
proof (relation "measure length")
  show "wf (measure length)" by simp
next
  fix c r x2 x y
  assume "quoted_run (c # r) = Some x2" and "(x, y) = x2"
  then have "y = tl (dropWhile (\<lambda>x. x \<noteq> CHR 0x22) r)"
    by (auto simp: quoted_run_def Let_def split: if_splits)
  moreover have "length (dropWhile (\<lambda>x. x \<noteq> CHR 0x22) r) \<le> length r"
    by (rule length_dropWhile_le)
  ultimately show "(y, c # r) \<in> measure length" by simp
next
  fix c :: char and r :: string
  show "(r, c # r) \<in> measure length" by simp
next
  fix c :: char and r :: string
  have "length (dropWhile (\<lambda>x. x \<noteq> CHR '' '') r) \<le> length r"
    by (rule length_dropWhile_le)
  then show "(dropWhile (\<lambda>x. x \<noteq> CHR '' '') r, c # r) \<in> measure length" by simp
qed

text \<open>The callback of \<^verbatim>\<open>map\<close> on lines 81 to 87. \<^verbatim>\<open>word.match(/^"(.*)"$/)\<close> succeeds
  on a word of at least two characters that starts and ends with a double quote and has
  no line terminator between them; \<^verbatim>\<open>word.replace('"', '')\<close> removes the first double
  quote that is left.\<close>

definition strip_word :: "string \<Rightarrow> string" where
  "strip_word word =
     (let w = (if word \<noteq> [] \<and> hd word = CHR 0x22 then
                 (if 2 \<le> length word \<and> last word = CHR 0x22
                     \<and> \<not> list_ex line_terminator (butlast (tl word))
                  then butlast (tl word) else word)
               else word)
      in remove1 (CHR 0x22) w)"

fun join :: "string \<Rightarrow> string list \<Rightarrow> string" where
  "join sep [] = []"
| "join sep [w] = w"
| "join sep (w # ws) = w @ sep @ join sep ws"

text \<open>Lines 81 to 89: the words of the search text and the pattern built from them.\<close>

definition smart_words :: "string \<Rightarrow> string list" where
  "smart_words searchText =
     map strip_word (case match_words searchText of [] \<Rightarrow> [''''] | ws \<Rightarrow> ws)"

definition smart_pattern :: "string \<Rightarrow> string" where
  "smart_pattern searchText =
     ''^(?=.*?'' @ join '')(?=.*?'' (smart_words searchText) @ '').*$''"

text \<open>Lines 96 to 115, on the object \<open>findParameters\<close>: what it is when the function
  returns. Each \<open>orCondition\<close> is a new object on which the field is assigned.\<close>

definition attach_search :: "jsval \<Rightarrow> jsval list \<Rightarrow> jsval \<Rightarrow> error + jsval" where
  "attach_search findParameters searchableFields searchRegex =
     (if length searchableFields = 1 then
        ebind (to_string (hd searchableFields)) (\<lambda>k. set_prop findParameters k searchRegex)
      else
        ebind (emap (\<lambda>field. ebind (to_string field) (\<lambda>k. set_prop (JObj []) k searchRegex))
                 searchableFields) (\<lambda>searchOrArray.
        ebind (get_prop findParameters ''$or'') (\<lambda>prevOr.
        if truthy prevOr then
          set_prop (delete_prop findParameters ''$or'') ''$and''
            (JArr [JObj [(''$or'', JArr searchOrArray)], JObj [(''$or'', prevOr)]])
        else set_prop findParameters ''$or'' (JArr searchOrArray))))"

text \<open>
  On line 72 \<open>findParameters\<close> is the object \<^verbatim>\<open>params.find\<close> itself when that is
  truthy, and a new object otherwise. The assignments and the \<^verbatim>\<open>delete\<close> of lines 97 to
  112 act on that object, so they are seen through \<^verbatim>\<open>params.find\<close> as well. The function
  therefore returns a pair: its result, and the descriptor as the call leaves it.
\<close>

text \<open>\<^verbatim>\<open>(params.find) ? params.find : {}\<close> on line 72, and \<^verbatim>\<open>params.find || {}\<close> on
  line 217.\<close>

definition find_or_empty :: "jsval \<Rightarrow> jsval" where
  "find_or_empty f = (if truthy f then f else JObj [])"

definition store_find :: "bool \<Rightarrow> jsval \<Rightarrow> jsval \<Rightarrow> jsval" where
  "store_find shared findParameters params =
     (if shared then
        (case params of JObj kvs \<Rightarrow> JObj (AList.update ''find'' findParameters kvs) | _ \<Rightarrow> params)
      else params)"

text \<open>Lines 80 to 92: the pattern searched for, always case-insensitive.\<close>

definition search_regex :: "jsval \<Rightarrow> string \<Rightarrow> jsval" where
  "search_regex smart searchText =
     (if truthy smart then JRegExp (smart_pattern searchText) ''i''
      else JRegExp searchText ''i'')"

definition buildFindParameters :: "jsval \<Rightarrow> error + jsval \<times> jsval" where
  "buildFindParameters params =
     (if \<not> truthy params then Inr (JNull, params) else
      ebind (get_prop params ''columns'') (\<lambda>columns.
      if \<not> truthy columns then Inr (JNull, params) else
      ebind (get_prop params ''search'') (\<lambda>search.
      if \<not> truthy search then Inr (JNull, params) else
      ebind (get_prop search ''value'') (\<lambda>v.
      if \<not> truthy v \<and> v \<noteq> JStr '''' then Inr (JNull, params) else
      ebind (escapeRegex v) (\<lambda>searchText.
      ebind (get_prop params ''find'') (\<lambda>f.
      let shared = truthy f;
          findParameters = find_or_empty f
      in
      if searchText = '''' then Inr (findParameters, params) else
      ebind (get_prop search ''smart'') (\<lambda>smart.
      let searchRegex = search_regex smart searchText in
      ebind (getSearchableFields params) (\<lambda>searchableFields.
      ebind (attach_search findParameters searchableFields searchRegex) (\<lambda>findParameters'.
      Inr (findParameters', store_find shared findParameters' params))))))))))"

subsection \<open>\<^verbatim>\<open>buildSortParameters\<close> (lines 132 to 155)\<close>

definition buildSortParameters :: "jsval \<Rightarrow> error + jsval" where
  "buildSortParameters params =
     (if \<not> truthy params then Inr JNull else
      ebind (get_prop params ''order'') (\<lambda>order.
      case order of
        JArr os \<Rightarrow>
          if length os = 0 then Inr JNull else
          ebind (get_prop (array_get os (Fin 0)) ''column'') (\<lambda>column.
          ebind (to_number column) (\<lambda>sortColumn.
          ebind (get_prop (array_get os (Fin 0)) ''dir'') (\<lambda>sortOrder.
          ebind (isNaNorUndefined [JNum sortColumn]) (\<lambda>bad.
          if bad then Inr JNull else
          ebind (get_prop params ''columns'') (\<lambda>columns.
          case columns of
            JArr cs \<Rightarrow>
              if num_ge sortColumn (int (length cs)) then Inr JNull else
              ebind (get_prop (array_get cs sortColumn) ''orderable'') (\<lambda>orderable.
              if orderable = JStr ''false'' then Inr JNull else
              ebind (get_prop (array_get cs sortColumn) ''data'') (\<lambda>sortField.
              if \<not> truthy sortField then Inr JNull else
              ebind (to_string sortField) (\<lambda>k.
              set_prop (JObj []) k (JNum (Fin (if sortOrder = JStr ''asc'' then 1 else - 1))))))
          | _ \<Rightarrow> Inr JNull)))))
      | _ \<Rightarrow> Inr JNull))"

subsection \<open>\<^verbatim>\<open>buildSelectParameters\<close> (lines 163 to 172)\<close>

text \<open>The callback of \<^verbatim>\<open>reduce\<close>: \<^verbatim>\<open>selectParams[column.data] = 1\<close>.\<close>

fun select_columns :: "jsval \<Rightarrow> jsval list \<Rightarrow> error + jsval" where
  "select_columns selectParams [] = Inr selectParams"
| "select_columns selectParams (column # cs) =
     ebind (get_prop column ''data'') (\<lambda>d.
     ebind (to_string d) (\<lambda>k.
     ebind (set_prop selectParams k (JNum (Fin 1))) (\<lambda>selectParams'.
     select_columns selectParams' cs)))"

definition buildSelectParameters :: "jsval \<Rightarrow> error + jsval" where
  "buildSelectParameters params =
     (if \<not> truthy params then Inr JNull else
      ebind (get_prop params ''columns'') (\<lambda>columns.
      case columns of
        JArr cs \<Rightarrow> select_columns (JObj []) cs
      | _ \<Rightarrow> Inr JNull))"

subsection \<open>\<^verbatim>\<open>run\<close> (lines 180 to 251)\<close>

text \<open>
  The store is the collaborator \<^verbatim>\<open>Model\<close>: a count of the documents that match a
  filter, and the execution of a query built by \<^verbatim>\<open>find\<close>, \<^verbatim>\<open>select\<close>, \<^verbatim>\<open>limit\<close>,
  \<^verbatim>\<open>skip\<close>, \<^verbatim>\<open>sort\<close> and, when asked for, \<^verbatim>\<open>populate\<close>. Each operation settles
  either with a value (\<open>Inr\<close>) or with the store's error (\<open>Inl\<close>).
\<close>

record query =
  q_find :: jsval
  q_select :: jsval
  q_limit :: jsnum
  q_skip :: jsnum
  q_sort :: jsval
  q_populate :: "jsval option"

record model =
  countDocuments :: "jsval \<Rightarrow> jsval + jsval"
  exec_query :: "query \<Rightarrow> jsval + jsval"

datatype store_op = CountDocuments jsval | ExecQuery query

text \<open>
  A call of \<^verbatim>\<open>run(Model)(params)\<close> either throws before the promise exists, or returns
  a promise that is rejected or fulfilled. A promise is rejected with
  \<^verbatim>\<open>new Error(message)\<close>, with an exception raised in its executor, or with
  \<^verbatim>\<open>{error: err}\<close>, where \<open>err\<close> is what the chain of line 246 caught: the error of a
  store operation, or an exception raised in a callback. With the outcome comes the list
  of the operations issued on the store, in order.
\<close>

datatype reason = NewError string | Raised error | Wrapped "error + jsval"

datatype outcome = Thrown error | Rejected reason | Fulfilled jsval

definition malformed_pagination :: string where
  "malformed_pagination =
     ''Some parameters are missing or in a wrong state. Could be any of draw, start or length''"

definition malformed_query :: string where
  "malformed_query = ''Invalid findParameters or sortParameters or selectParameters''"

text \<open>Lines 199 to 249, the executor of the promise. \<open>params\<close> is the descriptor as the
  three compilers left it.\<close>

definition executor ::
  "model \<Rightarrow> jsval \<Rightarrow> jsnum \<Rightarrow> jsnum \<Rightarrow> jsnum \<Rightarrow> jsval \<Rightarrow> jsval \<Rightarrow> jsval \<Rightarrow> outcome \<times> store_op list"
where
  "executor Model params draw start len findParameters sortParameters selectParameters =
     (case isNaNorUndefined [JNum draw, JNum start, JNum len] of
        Inl e \<Rightarrow> (Rejected (Raised e), [])
      | Inr True \<Rightarrow> (Rejected (NewError malformed_pagination), [])
      | Inr False \<Rightarrow>
     if \<not> truthy findParameters \<or> \<not> truthy sortParameters \<or> \<not> truthy selectParameters
     then (Rejected (NewError malformed_query), [])
     else
     case get_prop params ''find'' of
        Inl e \<Rightarrow> (Rejected (Raised e), [])
      | Inr f \<Rightarrow>
     let base = find_or_empty f in
     case countDocuments Model base of
        Inl err \<Rightarrow> (Rejected (Wrapped (Inr err)), [CountDocuments base])
      | Inr recordsTotal \<Rightarrow>
     case countDocuments Model findParameters of
        Inl err \<Rightarrow>
          (Rejected (Wrapped (Inr err)), [CountDocuments base, CountDocuments findParameters])
      | Inr recordsFiltered \<Rightarrow>
     case get_prop params ''populate'' of
        Inl e \<Rightarrow>
          (Rejected (Wrapped (Inl e)), [CountDocuments base, CountDocuments findParameters])
      | Inr populate \<Rightarrow>
     let q = \<lparr>q_find = findParameters, q_select = selectParameters, q_limit = len,
              q_skip = start, q_sort = sortParameters,
              q_populate = (if truthy populate then Some populate else None)\<rparr>;
         ops = [CountDocuments base, CountDocuments findParameters, ExecQuery q]
     in
     case exec_query Model q of
        Inl err \<Rightarrow> (Rejected (Wrapped (Inr err)), ops)
      | Inr results \<Rightarrow>
          (Fulfilled (JObj [(''draw'', JNum draw), (''recordsTotal'', recordsTotal),
                            (''recordsFiltered'', recordsFiltered), (''data'', results)]),
           ops))"

text \<open>Lines 190 to 195 run before the promise is made: what they raise is thrown to the
  caller. The sort and the projection compilers read the descriptor after the filter
  compiler has run.\<close>

definition run :: "model \<Rightarrow> jsval \<Rightarrow> outcome \<times> store_op list" where
  "run Model params =
     (case
        ebind (get_prop params ''draw'') (\<lambda>d. ebind (to_number d) (\<lambda>draw.
        ebind (get_prop params ''start'') (\<lambda>s. ebind (to_number s) (\<lambda>start.
        ebind (get_prop params ''length'') (\<lambda>l. ebind (to_number l) (\<lambda>len.
        ebind (buildFindParameters params) (\<lambda>(findParameters, params').
        ebind (buildSortParameters params') (\<lambda>sortParameters.
        ebind (buildSelectParameters params') (\<lambda>selectParameters.
        Inr (executor Model params' draw start len
               findParameters sortParameters selectParameters))))))))))
      of Inl e \<Rightarrow> (Thrown e, [])
       | Inr r \<Rightarrow> r)"

section \<open>Notions used in the statements\<close>

text \<open>What lines 101 to 113 leave of a base filter with fields \<open>base\<close> when the list
  of branches is empty.\<close>

definition zero_fields_filter :: "(string \<times> jsval) list \<Rightarrow> jsval" where
  "zero_fields_filter base =
     (case map_of base ''$or'' of
        None \<Rightarrow> JObj (AList.update ''$or'' (JArr []) base)
      | Some prevOr \<Rightarrow>
          if truthy prevOr then
            JObj (AList.update ''$and''
                    (JArr [JObj [(''$or'', JArr [])], JObj [(''$or'', prevOr)]])
                    (AList.delete ''$or'' base))
          else JObj (AList.update ''$or'' (JArr []) base))"

text \<open>Whether the flag of a column parses, whether it parses to a truthy value, and the
  \<^verbatim>\<open>data\<close> of a column.\<close>

definition flag_parses :: "jsval \<Rightarrow> bool" where
  "flag_parses column = (case searchable_flag column of Inr v \<Rightarrow> True | Inl e \<Rightarrow> False)"

definition flag_true :: "jsval \<Rightarrow> bool" where
  "flag_true column = (case searchable_flag column of Inr v \<Rightarrow> truthy v | Inl e \<Rightarrow> False)"

definition data_of :: "jsval \<Rightarrow> jsval" where
  "data_of column = (case get_prop column ''data'' of Inr v \<Rightarrow> v | Inl e \<Rightarrow> JUndefined)"










text \<open>The branch that lines 102 to 104 make for the field \<open>k\<close>.\<close>

definition or_branch :: "jsval \<Rightarrow> string \<Rightarrow> jsval" where
  "or_branch rx k = (if k = ''__proto__'' then JObj [] else JObj [(k, rx)])"

section \<open>Example descriptors\<close>

definition zero_fields_request :: jsval where
  "zero_fields_request =
     JObj [(''columns'', JArr [JObj [(''data'', JStr ''name''), (''searchable'', JStr ''false'')]]),
           (''search'', JObj [(''value'', JStr ''jo'')])]"

definition zero_fields_with_or :: jsval where
  "zero_fields_with_or =
     JObj [(''columns'', JArr [JObj [(''data'', JStr ''name''), (''searchable'', JBool False)]]),
           (''search'', JObj [(''value'', JStr ''jo'')]),
           (''find'', JObj [(''status'', JStr ''active''),
                            (''$or'', JArr [JObj [(''role'', JStr ''admin'')]])])]"

definition two_fields_request :: jsval where
  "two_fields_request =
     JObj [(''columns'', JArr [JObj [(''data'', JStr ''name''), (''searchable'', JStr ''true'')],
                               JObj [(''data'', JStr ''email''), (''searchable'', JBool True)],
                               JObj [(''data'', JStr ''age''), (''searchable'', JStr ''false'')]]),
           (''search'', JObj [(''value'', JStr ''jo''), (''smart'', JBool False)]),
           (''find'', JObj [(''status'', JStr ''active''),
                            (''$or'', JArr [JObj [(''role'', JStr ''admin'')]])])]"

definition overlapping_field_request :: jsval where
  "overlapping_field_request =
     JObj [(''columns'', JArr [JObj [(''data'', JStr ''name''), (''searchable'', JStr ''true'')]]),
           (''search'', JObj [(''value'', JStr ''jo''), (''smart'', JBool False)]),
           (''find'', JObj [(''name'', JStr ''Bob''), (''status'', JStr ''active'')])]"

definition base_filter_request :: jsval where
  "base_filter_request =
     JObj [(''draw'', JNum (Fin 1)), (''start'', JNum (Fin 0)), (''length'', JNum (Fin 10)),
           (''columns'', JArr [JObj [(''data'', JStr ''name''), (''searchable'', JStr ''true''),
                                     (''orderable'', JStr ''true'')]]),
           (''order'', JArr [JObj [(''column'', JStr ''0''), (''dir'', JStr ''asc'')]]),
           (''search'', JObj [(''value'', JStr ''jo''), (''smart'', JBool False)]),
           (''find'', JObj [(''status'', JStr ''active'')])]"

text \<open>A store with three documents that match \<^verbatim>\<open>{status: 'active'}\<close>, two of which match
  any other filter it is asked about, and whose queries return those two.\<close>

definition three_active_documents :: model where
  "three_active_documents =
     \<lparr>countDocuments = (\<lambda>f. Inr (JNum (Fin (if f = JObj [(''status'', JStr ''active'')] then 3 else 2)))),
      exec_query = (\<lambda>q. Inr (JArr [JObj [(''name'', JStr ''Joan'')], JObj [(''name'', JStr ''John'')]]))\<rparr>"

definition sort_request :: "jsval \<Rightarrow> jsval \<Rightarrow> jsval" where
  "sort_request column dir =
     JObj [(''columns'', JArr [JObj [(''data'', JStr ''name''), (''orderable'', JStr ''true'')]]),
           (''order'', JArr [JObj [(''column'', column), (''dir'', dir)]])]"

definition unsorted_request :: jsval where
  "unsorted_request =
     JObj [(''draw'', JNum (Fin 1)), (''start'', JNum (Fin 0)), (''length'', JNum (Fin 10)),
           (''columns'', JArr [JObj [(''data'', JStr ''name''), (''searchable'', JStr ''true''),
                                     (''orderable'', JStr ''true'')]]),
           (''search'', JObj [(''value'', JStr ''jo''), (''smart'', JBool False)])]"

definition empty_order_request :: jsval where
  "empty_order_request =
     JObj [(''draw'', JStr ''7''), (''start'', JStr ''20''), (''length'', JStr ''10''),
           (''columns'', JArr [JObj [(''data'', JStr ''name''), (''searchable'', JStr ''true''),
                                     (''orderable'', JStr ''true'')]]),
           (''order'', JArr []),
           (''search'', JObj [(''value'', JStr '''')])]"

definition paged_request :: "jsval \<Rightarrow> jsval \<Rightarrow> jsval \<Rightarrow> jsval" where
  "paged_request draw start len =
     JObj [(''draw'', draw), (''start'', start), (''length'', len),
           (''columns'', JArr [JObj [(''data'', JStr ''name''), (''searchable'', JStr ''true''),
                                     (''orderable'', JStr ''true'')]]),
           (''order'', JArr [JObj [(''column'', JStr ''0''), (''dir'', JStr ''asc'')]]),
           (''search'', JObj [(''value'', JStr ''jo''), (''smart'', JBool False)])]"

definition bad_start_request :: jsval where
  "bad_start_request =
     JObj [(''draw'', JNum (Fin 1)), (''start'', JStr ''abc''), (''length'', JNum (Fin 10)),
           (''columns'', JArr [JObj [(''data'', JStr ''name'')]]),
           (''order'', JArr [JObj [(''column'', JStr ''0''), (''dir'', JStr ''asc'')]]),
           (''search'', JObj [(''value'', JStr ''jo'')])]"

definition missing_length_request :: jsval where
  "missing_length_request =
     JObj [(''draw'', JNum (Fin 1)), (''start'', JStr ''0''),
           (''columns'', JArr [JObj [(''data'', JStr ''name''), (''searchable'', JStr ''true''),
                                     (''orderable'', JStr ''true'')]]),
           (''order'', JArr [JObj [(''column'', JStr ''0''), (''dir'', JStr ''desc'')]]),
           (''search'', JObj [(''value'', JStr ''jo'')])]"

definition numeric_flag_columns :: jsval where
  "numeric_flag_columns =
     JObj [(''columns'', JArr [JObj [(''data'', JStr ''name''), (''searchable'', JStr ''1'')],
                               JObj [(''data'', JStr ''age''), (''searchable'', JNull)]])]"

definition mixed_flag_columns :: jsval where
  "mixed_flag_columns =
     JObj [(''columns'', JArr [JObj [(''data'', JStr ''name''), (''searchable'', JStr ''true'')],
                               JObj [(''data'', JStr ''age''), (''searchable'', JBool False)],
                               JObj [(''data'', JStr ''email''), (''searchable'', JBool True)]])]"

definition unparsable_flag_columns :: jsval where
  "unparsable_flag_columns =
     JObj [(''columns'', JArr [JObj [(''data'', JStr ''name''), (''searchable'', JStr ''true'')],
                               JObj [(''data'', JStr ''age''), (''searchable'', JStr ''yes'')]]),
           (''search'', JObj [(''value'', JStr ''jo'')])]"

text \<open>Two searchable columns, the second of which is named \<^verbatim>\<open>__proto__\<close>.\<close>

definition proto_field_request :: jsval where
  "proto_field_request =
     JObj [(''columns'', JArr [JObj [(''data'', JStr ''name''), (''searchable'', JStr ''true'')],
                               JObj [(''data'', JStr ''__proto__''), (''searchable'', JStr ''true'')]]),
           (''search'', JObj [(''value'', JStr ''jo''), (''smart'', JBool False)])]"



section \<open>Properties\<close>

subsection \<open>Auxiliary facts\<close>

lemma ebind_Inr [simp]: "ebind (Inr x) f = f x"
  by (simp add: ebind_def)

lemma ebind_Inl [simp]: "ebind (Inl e) f = Inl e"
  by (simp add: ebind_def)

text \<open>Assignment of a property: a name the object has, a name that is neither an array
  index nor \<^verbatim>\<open>__proto__\<close>, and any name on a new object.\<close>

declare set_prop.simps(1) [simp del]

lemma update_fresh: "map_of kvs k = None \<Longrightarrow> AList.update k v kvs = kvs @ [(k, v)]"
  by (induction kvs) (auto split: if_splits)

lemma set_prop_own:
  "map_of kvs k = Some old \<Longrightarrow> set_prop (JObj kvs) k v = Inr (JObj (AList.update k v kvs))"
  by (simp add: set_prop.simps(1))

lemma set_prop_name:
  assumes "array_index k = None" and "k \<noteq> ''__proto__''"
  shows "set_prop (JObj kvs) k v = Inr (JObj (AList.update k v kvs))"
  using assms
  by (cases "map_of kvs k") (simp_all add: set_prop.simps(1) add_own_def update_fresh)

lemma set_prop_or [simp]:
  "set_prop (JObj kvs) ''$or'' v = Inr (JObj (AList.update ''$or'' v kvs))"
  by (rule set_prop_name) (simp_all add: array_index_def)

lemma set_prop_and [simp]:
  "set_prop (JObj kvs) ''$and'' v = Inr (JObj (AList.update ''$and'' v kvs))"
  by (rule set_prop_name) (simp_all add: array_index_def)

lemma set_prop_new: "set_prop (JObj []) k v = Inr (or_branch v k)"
  by (simp add: set_prop.simps(1) or_branch_def add_own_def split: option.splits)

lemma escape_text_empty [simp]: "escape_text s = [] \<longleftrightarrow> s = []"
  by (cases s) (auto simp: escape_text_def)

lemma truthy_of_prop:
  assumes "get_prop v k = Inr x" and "truthy x"
  shows "truthy v"
  using assms by (cases v) (auto split: if_splits)

lemma get_prop_truthy: "truthy v \<Longrightarrow> \<exists>x. get_prop v k = Inr x"
  by (cases v) auto

lemma emap_length: "emap g xs = Inr ys \<Longrightarrow> length ys = length xs"
  by (induction xs arbitrary: ys) (auto simp: ebind_def split: sum.splits)

text \<open>The path of \<open>buildFindParameters\<close> past line 78: the descriptor has columns, a
  search object and a search text that is a non-empty string.\<close>

lemma buildFindParameters_search:
  assumes "get_prop params ''columns'' = Inr columns" and "truthy columns"
      and "get_prop params ''search'' = Inr search" and "truthy search"
      and "get_prop search ''value'' = Inr (JStr text)" and "text \<noteq> []"
      and "get_prop params ''find'' = Inr f"
      and "get_prop search ''smart'' = Inr smart"
  shows "buildFindParameters params =
           ebind (getSearchableFields params) (\<lambda>sfields.
           ebind (attach_search (find_or_empty f) sfields (search_regex smart (escape_text text)))
             (\<lambda>fp. Inr (fp, store_find (truthy f) fp params)))"
proof -
  have "truthy params"
    using assms(1,2) by (rule truthy_of_prop)
  then show ?thesis
    using assms by (simp add: buildFindParameters_def Let_def)
qed

lemma emap_branches:
  "emap to_string sfields = Inr names \<Longrightarrow>
   emap (\<lambda>field. ebind (to_string field) (\<lambda>k. set_prop (JObj []) k rx)) sfields
     = Inr (map (or_branch rx) names)"
proof (induction sfields arbitrary: names)
  case Nil
  then show ?case by simp
next
  case (Cons a sfields)
  from Cons.prems obtain k ks
    where k: "to_string a = Inr k" and ks: "emap to_string sfields = Inr ks"
      and names: "names = k # ks"
    by (auto simp: ebind_def split: sum.splits)
  from Cons.IH [OF ks] k names show ?case by (simp add: set_prop_new)
qed

text \<open>The filter compiler changes nothing of the descriptor but \<^verbatim>\<open>find\<close>, which the
  other two compilers do not read.\<close>

lemma buildFindParameters_frame:
  assumes "buildFindParameters params = Inr (fp, params')"
  shows "params' = params
         \<or> (\<exists>kvs. params = JObj kvs \<and> params' = JObj (AList.update ''find'' fp kvs))"
  using assms
  by (auto simp: buildFindParameters_def ebind_def store_find_def Let_def
           split: if_splits sum.splits jsval.splits)

lemma buildSortParameters_frame:
  "buildSortParameters (JObj (AList.update ''find'' v kvs)) = buildSortParameters (JObj kvs)"
proof -
  have h: "get_prop (JObj (AList.update ''find'' v kvs)) ''order'' = get_prop (JObj kvs) ''order''"
       "get_prop (JObj (AList.update ''find'' v kvs)) ''columns'' = get_prop (JObj kvs) ''columns''"
    by (simp_all add: update_conv')
  show ?thesis
    unfolding buildSortParameters_def h truthy.simps by (rule refl)
qed

lemma buildSelectParameters_frame:
  "buildSelectParameters (JObj (AList.update ''find'' v kvs)) = buildSelectParameters (JObj kvs)"
proof -
  have h: "get_prop (JObj (AList.update ''find'' v kvs)) ''columns'' = get_prop (JObj kvs) ''columns''"
    by (simp add: update_conv')
  show ?thesis
    unfolding buildSelectParameters_def h truthy.simps by (rule refl)
qed

lemma compilers_after_filter:
  assumes "buildFindParameters params = Inr (fp, params')"
  shows "buildSortParameters params' = buildSortParameters params"
    and "buildSelectParameters params' = buildSelectParameters params"
  using buildFindParameters_frame [OF assms]
  by (auto simp: buildSortParameters_frame buildSelectParameters_frame)

text \<open>When nothing is thrown on lines 190 to 195, \<open>run\<close> is the executor of its promise.\<close>

lemma run_compiled:
  assumes "get_prop params ''draw'' = Inr d" and "to_number d = Inr draw"
      and "get_prop params ''start'' = Inr s" and "to_number s = Inr start"
      and "get_prop params ''length'' = Inr l" and "to_number l = Inr len"
      and "buildFindParameters params = Inr (fp, params')"
      and "buildSortParameters params = Inr sp"
      and "buildSelectParameters params = Inr sel"
  shows "run Model params = executor Model params' draw start len fp sp sel"
  using assms compilers_after_filter [OF assms(7)]
  by (simp add: run_def)

text \<open>What the orchestrator fulfils with, and what its first count is issued for. When
  the descriptor has a \<^verbatim>\<open>find\<close> and the filter compiler returns a filter, that filter is
  the descriptor's \<^verbatim>\<open>find\<close> afterwards, so both counts are for the compiled filter.\<close>

lemma shared_find_is_compiled:
  assumes "buildFindParameters params = Inr (fp, params')" and "truthy fp"
      and "get_prop params ''find'' = Inr f" and "truthy f"
  shows "get_prop params' ''find'' = Inr fp"
  using assms
  by (auto simp: buildFindParameters_def ebind_def store_find_def Let_def find_or_empty_def
                 update_conv'
           split: if_splits sum.splits jsval.splits)

lemma run_fulfilled:
  assumes "get_prop params ''draw'' = Inr d" and "to_number d = Inr draw" and "draw \<noteq> NaN"
      and "get_prop params ''start'' = Inr s" and "to_number s = Inr start" and "start \<noteq> NaN"
      and "get_prop params ''length'' = Inr l" and "to_number l = Inr len" and "len \<noteq> NaN"
      and "buildFindParameters params = Inr (fp, params')" and "truthy fp"
      and "buildSortParameters params = Inr sp" and "truthy sp"
      and "buildSelectParameters params = Inr sel" and "truthy sel"
      and "get_prop params' ''find'' = Inr f"
      and "get_prop params' ''populate'' = Inr populate"
      and "countDocuments Model (find_or_empty f) = Inr n_total"
      and "countDocuments Model fp = Inr n_filtered"
      and "exec_query Model
             \<lparr>q_find = fp, q_select = sel, q_limit = len, q_skip = start, q_sort = sp,
              q_populate = (if truthy populate then Some populate else None)\<rparr> = Inr results"
  shows "run Model params =
           (Fulfilled (JObj [(''draw'', JNum draw), (''recordsTotal'', n_total),
                             (''recordsFiltered'', n_filtered), (''data'', results)]),
            [CountDocuments (find_or_empty f), CountDocuments fp,
             ExecQuery \<lparr>q_find = fp, q_select = sel, q_limit = len, q_skip = start, q_sort = sp,
                        q_populate = (if truthy populate then Some populate else None)\<rparr>])"
  using run_compiled [OF assms(1,2,4,5,7,8,10,12,14), of Model] assms
  by (simp add: executor_def Let_def)

subsection \<open>Zero searchable columns\<close>

lemma attach_search_Nil:
  "attach_search (JObj base) [] rx = Inr (zero_fields_filter base)"
  by (simp add: attach_search_def zero_fields_filter_def split: option.splits)

lemma zero_fields_filter_neq: "zero_fields_filter base \<noteq> JObj base"
proof
  assume eq: "zero_fields_filter base = JObj base"
  have new: "map_of (AList.update ''$or'' (JArr []) base) ''$or'' = Some (JArr [])"
    by (simp add: update_conv')
  show False
  proof (cases "map_of base ''$or''")
    case None
    with eq have "AList.update ''$or'' (JArr []) base = base"
      by (simp add: zero_fields_filter_def)
    with new None show False by simp
  next
    case (Some prevOr)
    show False
    proof (cases "truthy prevOr")
      case True
      let ?b = "AList.update ''$and''
                  (JArr [JObj [(''$or'', JArr [])], JObj [(''$or'', prevOr)]])
                  (AList.delete ''$or'' base)"
      have "map_of ?b ''$or'' = None"
        by (simp add: update_conv' delete_conv')
      moreover from eq Some True have "?b = base"
        by (simp add: zero_fields_filter_def)
      ultimately show False using Some by simp
    next
      case False
      with eq Some have "AList.update ''$or'' (JArr []) base = base"
        by (simp add: zero_fields_filter_def)
      with new Some False show False by auto
    qed
  qed
qed

text \<open>
  \<^bold>\<open>C2\<close> (as amended). For every descriptor with a non-empty search text and no
  searchable column, whose base filter (\<^verbatim>\<open>find\<close>, or the empty filter when \<^verbatim>\<open>find\<close>
  is absent) is an object, the filter compiler returns the base filter with an empty
  search disjunction attached: \<^verbatim>\<open>$or: []\<close> is set on it, or, when it carries a truthy
  \<^verbatim>\<open>$or\<close> already, that is replaced by \<^verbatim>\<open>$and: [{$or: []}, {$or: prevOr}]\<close>. The
  compiled filter is never the base filter.
\<close>

theorem zero_fields_attach_empty_disjunction:
  assumes "get_prop params ''columns'' = Inr columns" and "truthy columns"
      and "get_prop params ''search'' = Inr search" and "truthy search"
      and "get_prop search ''value'' = Inr (JStr text)" and "text \<noteq> []"
      and "get_prop params ''find'' = Inr f"
      and "find_or_empty f = JObj base"
      and "getSearchableFields params = Inr []"
  shows "buildFindParameters params =
           Inr (zero_fields_filter base, store_find (truthy f) (zero_fields_filter base) params)
         \<and> zero_fields_filter base \<noteq> find_or_empty f"
proof -
  obtain smart where "get_prop search ''smart'' = Inr smart"
    using get_prop_truthy [OF assms(4)] by blast
  from buildFindParameters_search [OF assms(1-7) this]
  show ?thesis
    using assms(8,9) by (simp add: attach_search_Nil zero_fields_filter_neq)
qed

theorem zero_fields_attach_empty_disjunction_witness:
  "buildFindParameters zero_fields_with_or =
     Inr (JObj [(''status'', JStr ''active''),
                (''$and'', JArr [JObj [(''$or'', JArr [])],
                                 JObj [(''$or'', JArr [JObj [(''role'', JStr ''admin'')]])]])],
          store_find True
            (JObj [(''status'', JStr ''active''),
                   (''$and'', JArr [JObj [(''$or'', JArr [])],
                                    JObj [(''$or'', JArr [JObj [(''role'', JStr ''admin'')]])]])])
            zero_fields_with_or)"
proof -
  let ?cols = "JArr [JObj [(''data'', JStr ''name''), (''searchable'', JBool False)]]"
  let ?search = "JObj [(''value'', JStr ''jo'')]"
  let ?base = "[(''status'', JStr ''active''), (''$or'', JArr [JObj [(''role'', JStr ''admin'')]])]"
  have h1: "get_prop zero_fields_with_or ''columns'' = Inr ?cols"
    by (simp add: zero_fields_with_or_def)
  have h2: "truthy ?cols" by simp
  have h3: "get_prop zero_fields_with_or ''search'' = Inr ?search"
    by (simp add: zero_fields_with_or_def)
  have h4: "truthy ?search" by simp
  have h5: "get_prop ?search ''value'' = Inr (JStr ''jo'')" by simp
  have h6: "''jo'' \<noteq> []" by simp
  have h7: "get_prop zero_fields_with_or ''find'' = Inr (JObj ?base)"
    by (simp add: zero_fields_with_or_def)
  have h8: "find_or_empty (JObj ?base) = JObj ?base"
    by (simp add: find_or_empty_def)
  have h9: "getSearchableFields zero_fields_with_or = Inr []"
    by (simp add: zero_fields_with_or_def getSearchableFields_def searchable_flag_def)
  from zero_fields_attach_empty_disjunction [OF h1 h2 h3 h4 h5 h6 h7 h8 h9]
  show ?thesis
    by (simp add: zero_fields_filter_def)
qed

text \<open>The claim as stated fails: with the search text \<^verbatim>\<open>jo\<close>, one column that is not
  searchable and no \<^verbatim>\<open>find\<close>, the compiled filter is \<^verbatim>\<open>{$or: []}\<close>, not the empty
  filter.\<close>

theorem zero_fields_counterexample:
  "getSearchableFields zero_fields_request = Inr []
   \<and> find_or_empty JUndefined = JObj []
   \<and> buildFindParameters zero_fields_request
       = Inr (JObj [(''$or'', JArr [])], zero_fields_request)
   \<and> JObj [(''$or'', JArr [])] \<noteq> JObj []"
  by code_simp

subsection \<open>Two or more searchable columns\<close>

text \<open>
  With a non-empty search text and two or more searchable columns (whose field names are
  primitive values, and whose base filter is an object) the search disjunction has one
  branch per searchable column, in order: the branch of a field is \<^verbatim>\<open>{field: pattern}\<close>,
  but the branch of the field \<^verbatim>\<open>__proto__\<close> is the empty object. When the base filter
  carries no truthy \<^verbatim>\<open>$or\<close> the compiled filter has that disjunction as its \<^verbatim>\<open>$or\<close>;
  when it does, the compiled filter has
  \<^verbatim>\<open>$and: [{$or: search disjunction}, {$or: the caller's $or}]\<close>.
\<close>

lemma multi_field_branches:
  assumes "get_prop params ''columns'' = Inr columns" and "truthy columns"
      and "get_prop params ''search'' = Inr search" and "truthy search"
      and "get_prop search ''value'' = Inr (JStr text)" and "text \<noteq> []"
      and "get_prop search ''smart'' = Inr smart"
      and "get_prop params ''find'' = Inr f"
      and "find_or_empty f = JObj base"
      and "get_prop (JObj base) ''$or'' = Inr prevOr"
      and "getSearchableFields params = Inr sfields" and "2 \<le> length sfields"
      and "emap to_string sfields = Inr names"
  shows "\<exists>res. buildFindParameters params = Inr (JObj res, store_find (truthy f) (JObj res) params)
           \<and> length (map (or_branch (search_regex smart (escape_text text))) names)
               = length sfields
           \<and> (if truthy prevOr
              then map_of res ''$and''
                     = Some (JArr [JObj [(''$or'', JArr (map (or_branch (search_regex smart (escape_text text))) names))],
                                   JObj [(''$or'', prevOr)]])
              else map_of res ''$or''
                     = Some (JArr (map (or_branch (search_regex smart (escape_text text))) names)))"
proof -
  let ?rx = "search_regex smart (escape_text text)"
  let ?branches = "map (or_branch ?rx) names"
  have len: "length ?branches = length sfields"
    using emap_length [OF assms(13)] by simp
  have ne: "length sfields \<noteq> 1" using assms(12) by simp
  have b: "buildFindParameters params =
           ebind (attach_search (JObj base) sfields ?rx)
             (\<lambda>fp. Inr (fp, store_find (truthy f) fp params))"
    using buildFindParameters_search [OF assms(1-6) assms(8) assms(7)] assms(9,11) by simp
  show ?thesis
  proof (cases "truthy prevOr")
    case True
    then have "attach_search (JObj base) sfields ?rx =
      Inr (JObj (AList.update ''$and''
                   (JArr [JObj [(''$or'', JArr ?branches)], JObj [(''$or'', prevOr)]])
                   (AList.delete ''$or'' base)))"
      using ne assms(10) emap_branches [OF assms(13), of ?rx]
      by (simp add: attach_search_def)
    with b True len show ?thesis by (simp add: update_conv')
  next
    case False
    then have "attach_search (JObj base) sfields ?rx =
      Inr (JObj (AList.update ''$or'' (JArr ?branches) base))"
      using ne assms(10) emap_branches [OF assms(13), of ?rx]
      by (simp add: attach_search_def)
    with b False len show ?thesis by (simp add: update_conv')
  qed
qed

lemma or_branch_named:
  "''__proto__'' \<notin> set names \<Longrightarrow> map (or_branch rx) names = map (\<lambda>k. JObj [(k, rx)]) names"
  by (induction names) (auto simp: or_branch_def)

text \<open>
  \<^bold>\<open>C4\<close>. The claim is that the search disjunction has exactly one branch
  \<^verbatim>\<open>{field: pattern}\<close> per searchable column. On \<open>proto_field_request\<close>, whose two
  searchable columns are \<^verbatim>\<open>name\<close> and \<^verbatim>\<open>__proto__\<close>, the disjunction is
  \<^verbatim>\<open>[{name: /jo/i}, {}]\<close>: on line 103 the assignment of \<^verbatim>\<open>__proto__\<close> to the new
  object gives it no property, so the second branch constrains nothing. On
  \<open>two_fields_request\<close>, whose base filter carries a \<^verbatim>\<open>$or\<close>, the branches are as
  claimed and the caller's \<^verbatim>\<open>$or\<close> is kept under \<^verbatim>\<open>$and\<close>.
\<close>

theorem proto_field_has_no_branch:
  "getSearchableFields proto_field_request = Inr [JStr ''name'', JStr ''__proto__'']
   \<and> buildFindParameters proto_field_request
       = Inr (JObj [(''$or'', JArr [JObj [(''name'', JRegExp ''jo'' ''i'')], JObj []])],
              proto_field_request)
   \<and> getSearchableFields two_fields_request = Inr [JStr ''name'', JStr ''email'']
   \<and> map_sum id fst (buildFindParameters two_fields_request)
       = Inr (JObj [(''status'', JStr ''active''),
                    (''$and'', JArr [JObj [(''$or'', JArr [JObj [(''name'', JRegExp ''jo'' ''i'')],
                                                           JObj [(''email'', JRegExp ''jo'' ''i'')]])],
                                     JObj [(''$or'', JArr [JObj [(''role'', JStr ''admin'')]])]])])"
  by code_simp

subsection \<open>One searchable column\<close>

text \<open>
  \<^bold>\<open>C10\<close>. For every descriptor with a non-empty search text and exactly one
  searchable column whose field name is a key of the caller's \<^verbatim>\<open>find\<close>, the compiled
  filter is \<^verbatim>\<open>find\<close> with the value of that key replaced by the search pattern: the
  field's matcher is the pattern, the filter has the same keys as before, and every other
  key keeps its value, so what \<^verbatim>\<open>find\<close> asked of that field is gone.
\<close>

theorem single_field_overwrites_base:
  assumes "get_prop params ''columns'' = Inr columns" and "truthy columns"
      and "get_prop params ''search'' = Inr search" and "truthy search"
      and "get_prop search ''value'' = Inr (JStr text)" and "text \<noteq> []"
      and "get_prop search ''smart'' = Inr smart"
      and "get_prop params ''find'' = Inr (JObj base)"
      and "getSearchableFields params = Inr [field]"
      and "to_string field = Inr k"
      and "map_of base k = Some old"
  shows "buildFindParameters params =
           Inr (JObj (AList.update k (search_regex smart (escape_text text)) base),
                store_find True (JObj (AList.update k (search_regex smart (escape_text text)) base)) params)
         \<and> get_prop (JObj (AList.update k (search_regex smart (escape_text text)) base)) k
             = Inr (search_regex smart (escape_text text))
         \<and> map fst (AList.update k (search_regex smart (escape_text text)) base) = map fst base
         \<and> (\<forall>k'. k' \<noteq> k \<longrightarrow>
               map_of (AList.update k (search_regex smart (escape_text text)) base) k' = map_of base k')"
proof -
  let ?rx = "search_regex smart (escape_text text)"
  have "attach_search (JObj base) [field] ?rx = Inr (JObj (AList.update k ?rx base))"
    using assms(10) set_prop_own [OF assms(11)] by (simp add: attach_search_def)
  then have "buildFindParameters params =
           Inr (JObj (AList.update k ?rx base), store_find True (JObj (AList.update k ?rx base)) params)"
    using buildFindParameters_search [OF assms(1-6) assms(8) assms(7)] assms(9)
    by (simp add: find_or_empty_def)
  moreover have "k \<in> fst ` set base"
    using assms(11) by (metis map_of_eq_None_iff option.distinct(1))
  then have "map fst (AList.update k ?rx base) = map fst base"
    by (simp add: update_keys)
  ultimately show ?thesis
    by (simp add: update_conv')
qed

theorem single_field_overwrites_base_witness:
  "buildFindParameters overlapping_field_request =
     Inr (JObj [(''name'', JRegExp ''jo'' ''i''), (''status'', JStr ''active'')],
          store_find True (JObj [(''name'', JRegExp ''jo'' ''i''), (''status'', JStr ''active'')])
            overlapping_field_request)"
proof -
  let ?cols = "JArr [JObj [(''data'', JStr ''name''), (''searchable'', JStr ''true'')]]"
  let ?search = "JObj [(''value'', JStr ''jo''), (''smart'', JBool False)]"
  let ?base = "[(''name'', JStr ''Bob''), (''status'', JStr ''active'')]"
  have h1: "get_prop overlapping_field_request ''columns'' = Inr ?cols"
    by (simp add: overlapping_field_request_def)
  have h2: "truthy ?cols" by simp
  have h3: "get_prop overlapping_field_request ''search'' = Inr ?search"
    by (simp add: overlapping_field_request_def)
  have h4: "truthy ?search" by simp
  have h5: "get_prop ?search ''value'' = Inr (JStr ''jo'')" by simp
  have h6: "''jo'' \<noteq> []" by simp
  have h7: "get_prop ?search ''smart'' = Inr (JBool False)" by simp
  have h8: "get_prop overlapping_field_request ''find'' = Inr (JObj ?base)"
    by (simp add: overlapping_field_request_def)
  have h9: "getSearchableFields overlapping_field_request = Inr [JStr ''name'']"
    by code_simp
  have h10: "to_string (JStr ''name'') = Inr ''name''" by simp
  have h11: "map_of ?base ''name'' = Some (JStr ''Bob'')" by simp
  have esc: "escape_text ''jo'' = ''jo''" by code_simp
  from single_field_overwrites_base [OF h1 h2 h3 h4 h5 h6 h7 h8 h9 h10 h11]
  show ?thesis
    by (simp add: search_regex_def esc)
qed

subsection \<open>The base filter is shared with the descriptor\<close>

text \<open>
  \<^bold>\<open>C3\<close>. The claim is that the filter compiler leaves the descriptor as it was. On
  \<open>base_filter_request\<close>, whose \<^verbatim>\<open>find\<close> is \<^verbatim>\<open>{status: 'active'}\<close>, the call returns
  \<^verbatim>\<open>{status: 'active', name: /jo/i}\<close> and the descriptor's \<^verbatim>\<open>find\<close> is that same
  filter afterwards: the caller's object has been given the field \<^verbatim>\<open>name\<close>. On
  \<open>unsorted_request\<close>, which has no \<^verbatim>\<open>find\<close>, the descriptor is left as it was.
\<close>

theorem find_is_modified_in_place:
  "get_prop base_filter_request ''find'' = Inr (JObj [(''status'', JStr ''active'')])
   \<and> (case buildFindParameters base_filter_request of
         Inl e \<Rightarrow> Inl e
       | Inr (compiled, after) \<Rightarrow> Inr (compiled, get_prop after ''find''))
       = Inr (JObj [(''status'', JStr ''active''), (''name'', JRegExp ''jo'' ''i'')],
              Inr (JObj [(''status'', JStr ''active''), (''name'', JRegExp ''jo'' ''i'')]))
   \<and> buildFindParameters unsorted_request
       = Inr (JObj [(''name'', JRegExp ''jo'' ''i'')], unsorted_request)"
  by code_simp

text \<open>
  \<^bold>\<open>C8\<close>. The claim is that \<^verbatim>\<open>recordsTotal\<close> counts the documents that match
  \<^verbatim>\<open>find\<close> alone. On \<open>base_filter_request\<close> the store has three such documents, and
  the first count \<open>run\<close> issues is for the compiled filter, so \<^verbatim>\<open>recordsTotal\<close> is 2.
\<close>

theorem records_total_counts_compiled_filter:
  "countDocuments three_active_documents (JObj [(''status'', JStr ''active'')]) = Inr (JNum (Fin 3))
   \<and> run three_active_documents base_filter_request =
       (Fulfilled (JObj [(''draw'', JNum (Fin 1)),
                         (''recordsTotal'', JNum (Fin 2)),
                         (''recordsFiltered'', JNum (Fin 2)),
                         (''data'', JArr [JObj [(''name'', JStr ''Joan'')], JObj [(''name'', JStr ''John'')]])]),
        [CountDocuments (JObj [(''status'', JStr ''active''), (''name'', JRegExp ''jo'' ''i'')]),
         CountDocuments (JObj [(''status'', JStr ''active''), (''name'', JRegExp ''jo'' ''i'')]),
         ExecQuery \<lparr>q_find = JObj [(''status'', JStr ''active''), (''name'', JRegExp ''jo'' ''i'')],
                    q_select = JObj [(''name'', JNum (Fin 1))],
                    q_limit = Fin 10, q_skip = Fin 0,
                    q_sort = JObj [(''name'', JNum (Fin 1))],
                    q_populate = None\<rparr>])"
  by code_simp

subsection \<open>The sort compiler\<close>

text \<open>
  \<^bold>\<open>C5\<close>. The claim is that the sort compiler returns its absent result when the
  index is out of the bounds of \<^verbatim>\<open>columns\<close>. Line 139 tests the upper bound only: with
  the column \<^verbatim>\<open>"-1"\<close> the index is \<open>-1\<close>, \<^verbatim>\<open>params.columns[-1]\<close> is \<^verbatim>\<open>undefined\<close>,
  and line 143 raises a \<^verbatim>\<open>TypeError\<close> reading its \<^verbatim>\<open>orderable\<close>. With the column
  \<^verbatim>\<open>"1"\<close>, past the only column, and with \<^verbatim>\<open>"x"\<close>, which is no number, the result is
  \<^verbatim>\<open>null\<close>; with \<^verbatim>\<open>"0"\<close> it is the ordering by the column's field.
\<close>

theorem negative_sort_column_raises:
  "to_number (JStr ''-1'') = Inr (Fin (- 1))
   \<and> buildSortParameters (sort_request (JStr ''-1'') (JStr ''asc'')) = Inl TypeError
   \<and> buildSortParameters (sort_request (JStr ''1'') (JStr ''asc'')) = Inr JNull
   \<and> buildSortParameters (sort_request (JStr ''x'') (JStr ''asc'')) = Inr JNull
   \<and> buildSortParameters (sort_request (JStr ''0'') (JStr ''asc''))
       = Inr (JObj [(''name'', JNum (Fin 1))])
   \<and> buildSortParameters (sort_request (JStr ''0'') (JStr ''down''))
       = Inr (JObj [(''name'', JNum (Fin (- 1)))])"
  by code_simp

subsection \<open>The orchestrator's two rejections\<close>

text \<open>The claim \<^bold>\<open>C1\<close> as stated fails: \<open>unsorted_request\<close> has no \<^verbatim>\<open>order\<close>, the
  sort compiler returns \<^verbatim>\<open>null\<close>, the other two compilers return a filter and a
  projection, and \<open>run\<close> rejects with the error of line 212.\<close>

theorem absent_sort_counterexample:
  "buildSortParameters unsorted_request = Inr JNull
   \<and> buildFindParameters unsorted_request
       = Inr (JObj [(''name'', JRegExp ''jo'' ''i'')], unsorted_request)
   \<and> buildSelectParameters unsorted_request = Inr (JObj [(''name'', JNum (Fin 1))])
   \<and> run three_active_documents unsorted_request
       = (Rejected (NewError ''Invalid findParameters or sortParameters or selectParameters''), [])"
  by code_simp

text \<open>
  \<^bold>\<open>C1\<close> (as amended). For every descriptor whose \<^verbatim>\<open>draw\<close>, \<^verbatim>\<open>start\<close> and
  \<^verbatim>\<open>length\<close> convert to numbers other than \<^verbatim>\<open>NaN\<close>, on which the filter and the
  projection compilers return and the sort compiler returns \<^verbatim>\<open>null\<close>, the orchestrator
  rejects with the error \<^verbatim>\<open>Invalid findParameters or sortParameters or
  selectParameters\<close> and issues no operation on the store: line 210 tests the three
  results alike.
\<close>

theorem absent_sort_is_rejected:
  assumes "get_prop params ''draw'' = Inr d" and "to_number d = Inr draw" and "draw \<noteq> NaN"
      and "get_prop params ''start'' = Inr s" and "to_number s = Inr start" and "start \<noteq> NaN"
      and "get_prop params ''length'' = Inr l" and "to_number l = Inr len" and "len \<noteq> NaN"
      and "buildFindParameters params = Inr (fp, params')"
      and "buildSortParameters params = Inr JNull"
      and "buildSelectParameters params = Inr sel"
  shows "run Model params = (Rejected (NewError malformed_query), [])"
  using run_compiled [OF assms(1,2,4,5,7,8,10,11,12), of Model] assms(3,6,9)
  by (simp add: executor_def)

theorem absent_sort_is_rejected_witness:
  "run three_active_documents empty_order_request
     = (Rejected (NewError malformed_query), [])"
proof -
  have h1: "get_prop empty_order_request ''draw'' = Inr (JStr ''7'')"
    by (simp add: empty_order_request_def)
  have h2: "to_number (JStr ''7'') = Inr (Fin 7)" by code_simp
  have h3: "Fin 7 \<noteq> NaN" by simp
  have h4: "get_prop empty_order_request ''start'' = Inr (JStr ''20'')"
    by (simp add: empty_order_request_def)
  have h5: "to_number (JStr ''20'') = Inr (Fin 20)" by code_simp
  have h6: "Fin 20 \<noteq> NaN" by simp
  have h7: "get_prop empty_order_request ''length'' = Inr (JStr ''10'')"
    by (simp add: empty_order_request_def)
  have h8: "to_number (JStr ''10'') = Inr (Fin 10)" by code_simp
  have h9: "Fin 10 \<noteq> NaN" by simp
  have h10: "buildFindParameters empty_order_request = Inr (JObj [], empty_order_request)"
    by code_simp
  have h11: "buildSortParameters empty_order_request = Inr JNull"
    by code_simp
  have h12: "buildSelectParameters empty_order_request = Inr (JObj [(''name'', JNum (Fin 1))])"
    by code_simp
  from absent_sort_is_rejected [OF h1 h2 h3 h4 h5 h6 h7 h8 h9 h10 h11 h12]
  show ?thesis .
qed

text \<open>The claim \<^bold>\<open>C7\<close> as stated fails. In \<open>bad_start_request\<close> \<^verbatim>\<open>start\<close> converts
  to \<^verbatim>\<open>NaN\<close>, and the column has no \<^verbatim>\<open>searchable\<close>: the compilers run on lines 193
  to 195, before the test of line 201, \<^verbatim>\<open>JSON.parse(undefined)\<close> raises, and the call
  throws a \<^verbatim>\<open>SyntaxError\<close>; no promise is rejected. And where the promise is rejected,
  the error does not tell which parameter is at fault: it is the same for a descriptor
  whose \<^verbatim>\<open>draw\<close> alone is \<^verbatim>\<open>NaN\<close> as for one whose \<^verbatim>\<open>length\<close> alone is.\<close>

theorem malformed_pagination_counterexample:
  "to_number (JStr ''abc'') = Inr NaN
   \<and> run three_active_documents bad_start_request = (Thrown SyntaxError, [])
   \<and> run three_active_documents (paged_request (JStr ''abc'') (JNum (Fin 0)) (JNum (Fin 10)))
       = (Rejected (NewError malformed_pagination), [])
   \<and> run three_active_documents (paged_request (JNum (Fin 1)) (JNum (Fin 0)) JUndefined)
       = (Rejected (NewError malformed_pagination), [])"
  by code_simp

text \<open>
  \<^bold>\<open>C7\<close> (as amended). For every descriptor on which the three compilers return,
  and in which one of the numbers \<^verbatim>\<open>draw\<close>, \<^verbatim>\<open>start\<close>, \<^verbatim>\<open>length\<close> convert to is
  \<^verbatim>\<open>NaN\<close>, the orchestrator rejects with \<^verbatim>\<open>new Error\<close> of one fixed message, which
  lists the three names whichever is at fault, wraps nothing, and comes before any
  operation on the store.
\<close>

theorem malformed_pagination_is_rejected:
  assumes "get_prop params ''draw'' = Inr d" and "to_number d = Inr draw"
      and "get_prop params ''start'' = Inr s" and "to_number s = Inr start"
      and "get_prop params ''length'' = Inr l" and "to_number l = Inr len"
      and "draw = NaN \<or> start = NaN \<or> len = NaN"
      and "buildFindParameters params = Inr (fp, params')"
      and "buildSortParameters params = Inr sp"
      and "buildSelectParameters params = Inr sel"
  shows "run Model params =
           (Rejected (NewError
              ''Some parameters are missing or in a wrong state. Could be any of draw, start or length''),
            [])"
  using run_compiled [OF assms(1-6) assms(8-10), of Model] assms(7)
  by (auto simp add: executor_def malformed_pagination_def)

theorem malformed_pagination_is_rejected_witness:
  "run three_active_documents missing_length_request
     = (Rejected (NewError
          ''Some parameters are missing or in a wrong state. Could be any of draw, start or length''),
        [])"
proof -
  have h1: "get_prop missing_length_request ''draw'' = Inr (JNum (Fin 1))"
    by (simp add: missing_length_request_def)
  have h2: "to_number (JNum (Fin 1)) = Inr (Fin 1)" by simp
  have h3: "get_prop missing_length_request ''start'' = Inr (JStr ''0'')"
    by (simp add: missing_length_request_def)
  have h4: "to_number (JStr ''0'') = Inr (Fin 0)" by code_simp
  have h5: "get_prop missing_length_request ''length'' = Inr JUndefined"
    by (simp add: missing_length_request_def)
  have h6: "to_number JUndefined = Inr NaN" by simp
  have h7: "Fin 1 = NaN \<or> Fin 0 = NaN \<or> NaN = NaN" by simp
  have h8: "buildFindParameters missing_length_request
              = Inr (JObj [(''name'', JRegExp ''jo'' ''i'')], missing_length_request)"
    by code_simp
  have h9: "buildSortParameters missing_length_request = Inr (JObj [(''name'', JNum (Fin (- 1)))])"
    by code_simp
  have h10: "buildSelectParameters missing_length_request = Inr (JObj [(''name'', JNum (Fin 1))])"
    by code_simp
  from malformed_pagination_is_rejected [OF h1 h2 h3 h4 h5 h6 h7 h8 h9 h10]
  show ?thesis .
qed

subsection \<open>The searchable fields\<close>

lemma filter_searchable_ok:
  "list_all flag_parses cs \<Longrightarrow> filter_searchable cs = Inr (filter flag_true cs)"
  by (induction cs) (auto simp: flag_parses_def flag_true_def split: sum.splits)

lemma filter_searchable_error:
  "list_all flag_parses pre \<Longrightarrow> searchable_flag c = Inl e \<Longrightarrow>
   filter_searchable (pre @ c # post) = Inl e"
  by (induction pre) (auto simp: flag_parses_def split: sum.splits)

lemma flag_parses_data:
  "flag_parses c \<Longrightarrow> get_prop c ''data'' = Inr (data_of c)"
  by (cases c) (auto simp: flag_parses_def searchable_flag_def data_of_def)

lemma emap_data:
  "list_all flag_parses cs \<Longrightarrow> emap (\<lambda>column. get_prop column ''data'') cs = Inr (map data_of cs)"
  by (induction cs) (auto simp: flag_parses_data)

lemma list_all_filter: "list_all P xs \<Longrightarrow> list_all P (filter Q xs)"
  by (induction xs) auto

lemma boolean_flag:
  assumes "get_prop c ''searchable'' = Inr (JBool b)
           \<or> get_prop c ''searchable'' = Inr (JStr (if b then ''true'' else ''false''))"
  shows "searchable_flag c = Inr (JBool b)"
  using assms
  by (auto simp: searchable_flag_def json_text_def trim_def is_json_space_def)

text \<open>The claim \<^bold>\<open>C9\<close> as stated fails: the flags \<^verbatim>\<open>"1"\<close> and \<^verbatim>\<open>null\<close> of
  \<open>numeric_flag_columns\<close> are not boolean-like, and the extraction raises nothing; the
  first column is taken, the second is left out.\<close>

theorem non_boolean_flag_counterexample:
  "getSearchableFields numeric_flag_columns = Inr [JStr ''name'']"
  by code_simp

text \<open>
  \<^bold>\<open>C9\<close> (as amended). For every columns sequence: when the \<^verbatim>\<open>searchable\<close> of
  every column parses as JSON, the extractor returns, in order, the \<^verbatim>\<open>data\<close> of exactly
  the columns whose flag parses to a truthy value; when the flag of some column does not
  parse, the error of the first such column is raised by the extractor, and by the filter
  compiler when the search text is not empty. A literal boolean and its string encoding
  parse to that boolean.
\<close>

theorem searchable_fields_by_json_truthiness:
  assumes "get_prop params ''columns'' = Inr (JArr cs)"
  shows "(list_all flag_parses cs \<longrightarrow>
            getSearchableFields params = Inr (map data_of (filter flag_true cs)))
       \<and> (\<forall>pre c post e.
            cs = pre @ c # post \<and> list_all flag_parses pre \<and> searchable_flag c = Inl e \<longrightarrow>
            getSearchableFields params = Inl e)
       \<and> (\<forall>search text e.
            get_prop params ''search'' = Inr search \<and> truthy search
            \<and> get_prop search ''value'' = Inr (JStr text) \<and> text \<noteq> []
            \<and> getSearchableFields params = Inl e \<longrightarrow>
            buildFindParameters params = Inl e)
       \<and> (\<forall>c b. get_prop c ''searchable'' = Inr (JBool b)
                  \<or> get_prop c ''searchable'' = Inr (JStr (if b then ''true'' else ''false''))
            \<longrightarrow> flag_parses c \<and> flag_true c = b)"
proof -
  have ok: "getSearchableFields params = Inr (map data_of (filter flag_true cs))"
    if "list_all flag_parses cs"
    using that assms
    by (simp add: getSearchableFields_def filter_searchable_ok emap_data list_all_filter)
  have err: "getSearchableFields params = Inl e"
    if "cs = pre @ c # post" and "list_all flag_parses pre" and "searchable_flag c = Inl e"
    for pre c post e
    using that assms by (simp add: getSearchableFields_def filter_searchable_error)
  have compile: "buildFindParameters params = Inl e"
    if s1: "get_prop params ''search'' = Inr search" and s2: "truthy search"
      and s3: "get_prop search ''value'' = Inr (JStr sv)" and s4: "sv \<noteq> []"
      and s5: "getSearchableFields params = Inl e"
    for search sv e
  proof -
    have "truthy params"
      using assms by (rule truthy_of_prop) simp
    then obtain f where f: "get_prop params ''find'' = Inr f"
      using get_prop_truthy by blast
    obtain smart where smart: "get_prop search ''smart'' = Inr smart"
      using get_prop_truthy [OF s2] by blast
    have c: "truthy (JArr cs)" by simp
    from buildFindParameters_search [OF assms c s1 s2 s3 s4 f smart] s5
    show ?thesis by simp
  qed
  have flag: "flag_parses c \<and> flag_true c = b"
    if "get_prop c ''searchable'' = Inr (JBool b)
         \<or> get_prop c ''searchable'' = Inr (JStr (if b then ''true'' else ''false''))"
    for c b
    using boolean_flag [OF that] by (simp add: flag_parses_def flag_true_def)
  from ok err compile flag show ?thesis by blast
qed

theorem searchable_fields_by_json_truthiness_witness:
  "getSearchableFields mixed_flag_columns = Inr [JStr ''name'', JStr ''email'']
   \<and> getSearchableFields unparsable_flag_columns = Inl SyntaxError
   \<and> buildFindParameters unparsable_flag_columns = Inl SyntaxError"
proof -
  let ?c1 = "JObj [(''data'', JStr ''name''), (''searchable'', JStr ''true'')]"
  let ?c2 = "JObj [(''data'', JStr ''age''), (''searchable'', JBool False)]"
  let ?c3 = "JObj [(''data'', JStr ''email''), (''searchable'', JBool True)]"
  let ?c4 = "JObj [(''data'', JStr ''age''), (''searchable'', JStr ''yes'')]"
  have f1: "searchable_flag ?c1 = Inr (JBool True)" by code_simp
  have f2: "searchable_flag ?c2 = Inr (JBool False)" by code_simp
  have f3: "searchable_flag ?c3 = Inr (JBool True)" by code_simp
  have f4: "searchable_flag ?c4 = Inl SyntaxError" by code_simp
  have h1: "get_prop mixed_flag_columns ''columns'' = Inr (JArr [?c1, ?c2, ?c3])"
    by (simp add: mixed_flag_columns_def)
  have p1: "list_all flag_parses [?c1, ?c2, ?c3]"
    by (simp add: flag_parses_def f1 f2 f3)
  have a: "getSearchableFields mixed_flag_columns = Inr [JStr ''name'', JStr ''email'']"
    using searchable_fields_by_json_truthiness [OF h1] p1
    by (simp add: flag_true_def f1 f2 f3 data_of_def)
  have h2: "get_prop unparsable_flag_columns ''columns'' = Inr (JArr [?c1, ?c4])"
    by (simp add: unparsable_flag_columns_def)
  have p2: "[?c1, ?c4] = [?c1] @ ?c4 # [] \<and> list_all flag_parses [?c1] \<and> searchable_flag ?c4 = Inl SyntaxError"
    by (simp add: flag_parses_def f1 f4)
  have b: "getSearchableFields unparsable_flag_columns = Inl SyntaxError"
    using searchable_fields_by_json_truthiness [OF h2] p2 by blast
  have p3: "get_prop unparsable_flag_columns ''search'' = Inr (JObj [(''value'', JStr ''jo'')])
            \<and> truthy (JObj [(''value'', JStr ''jo'')])
            \<and> get_prop (JObj [(''value'', JStr ''jo'')]) ''value'' = Inr (JStr ''jo'')
            \<and> ''jo'' \<noteq> []"
    by (simp add: unparsable_flag_columns_def)
  have c: "buildFindParameters unparsable_flag_columns = Inl SyntaxError"
    using searchable_fields_by_json_truthiness [OF h2] p3 b by blast
  from a b c show ?thesis by simp
qed

subsection \<open>Escaping and the words of the search text\<close>

lemma escape_text_Nil [simp]: "escape_text [] = []"
  by (simp add: escape_text_def)


lemma escape_text_append [simp]: "escape_text (a @ b) = escape_text a @ escape_text b"
  by (simp add: escape_text_def)

















































subsection \<open>Smart search\<close>





end
